theory Spec2Isabelle
  imports Main "HOL-Library.Word"
begin

section \<open>Values of the host language\<close>

text \<open>
  The page component \<^verbatim>\<open>pages/app/upload.tsx\<close> talks to three collaborators: the record
  store and the object store of the Supabase client, and the vectorization worker reached
  with \<^verbatim>\<open>fetch\<close>. None of them is repository code; what each call answers is an input
  of the model (records \<open>upload_env\<close> and \<open>approve_env\<close> below), and the component's
  own control flow is translated statement by statement.
\<close>

type_synonym byte = "8 word"

text \<open>A \<^verbatim>\<open>Blob\<close>: its bytes and its media type.\<close>

record blob =
  blob_bytes :: "byte list"
  blob_type :: string

text \<open>
  A JavaScript number, given by what its conversion to a string reads off it: not a
  number, an infinity with its sign, a zero with its sign, or a finite nonzero number
  with its sign, the digits \<open>s\<close> of its shortest decimal form (the first and the last
  digit nonzero) and the exponent \<open>n\<close>, the magnitude being \<open>0.s\<close> times the \<open>n\<close>-th
  power of ten. So \<open>120.5\<close> is \<open>JFinite False [1, 2, 0, 5] 3\<close> and \<open>1e21\<close> is
  \<open>JFinite False [1] 22\<close>. How a double determines its shortest digits is outside the
  model.
\<close>

datatype jsnum = JNaN | JInfinity bool | JZero bool | JFinite bool "nat list" int

definition digit_char :: "nat \<Rightarrow> char" where
  "digit_char d = char_of (48 + d mod 10)"

function show_nat :: "nat \<Rightarrow> string" where
  "show_nat n = (if n < 10 then [digit_char n] else show_nat (n div 10) @ [digit_char (n mod 10)])"
  by pat_completeness auto
termination
  by (relation "measure (\<lambda>n. n)") auto

declare show_nat.simps [simp del]

text \<open>
  The string conversion a template literal applies to a number
  (\<^verbatim>\<open>Number::toString\<close> with radix 10). With \<open>k\<close> the number of digits: for
  \<open>k \<le> n \<le> 21\<close> the digits followed by \<open>n - k\<close> zeros; for \<open>0 < n \<le> 21\<close> the first
  \<open>n\<close> digits, a point and the other digits; for \<open>-6 < n \<le> 0\<close> the text \<open>0.\<close>, then
  \<open>-n\<close> zeros, then the digits; otherwise the exponent form, with the first digit, a
  point and the other digits when there are any, \<open>e\<close>, the sign of \<open>n - 1\<close> and its
  magnitude. Both zeros print as \<open>0\<close>.
\<close>

definition positive_to_string :: "nat list \<Rightarrow> int \<Rightarrow> string" where
  "positive_to_string s n =
     (let k = int (length s); ds = map digit_char s
      in if k \<le> n \<and> n \<le> 21 then ds @ replicate (nat (n - k)) CHR ''0''
         else if 0 < n \<and> n \<le> 21 then take (nat n) ds @ ''.'' @ drop (nat n) ds
         else if - 6 < n \<and> n \<le> 0 then ''0.'' @ replicate (nat (- n)) CHR ''0'' @ ds
         else (let e = n - 1;
                   es = (if e < 0 then ''-'' else ''+'') @ show_nat (nat \<bar>e\<bar>)
               in if k = 1 then ds @ ''e'' @ es
                  else take 1 ds @ ''.'' @ drop 1 ds @ ''e'' @ es))"

fun num_to_string :: "jsnum \<Rightarrow> string" where
  "num_to_string JNaN = ''NaN''"
| "num_to_string (JInfinity neg) = (if neg then ''-'' else '''') @ ''Infinity''"
| "num_to_string (JZero neg) = ''0''"
| "num_to_string (JFinite neg s n) = (if neg then ''-'' else '''') @ positive_to_string s n"

text \<open>Exceptions that leave a handler uncaught.\<close>

datatype js_error = PdfLoadError | TypeError | SyntaxError | InvalidCharacterError

section \<open>fileToPNGDataURL\<close>

text \<open>
  A \<^verbatim>\<open>File\<close>: its declared media type, its name, and what pdf.js makes of its bytes
  (\<open>None\<close>: the loading promise rejects; \<open>Some n\<close>: a document with \<open>numPages = n\<close>).
\<close>

record js_file =
  f_type :: string
  f_name :: string
  f_pdf :: "nat option"

text \<open>The viewport of \<^verbatim>\<open>page.getViewport({ scale })\<close>: the page number and the scale.\<close>

record viewport =
  vp_page :: nat
  vp_scale :: jsnum

text \<open>
  The URLs the function returns: the PNG data URL of a canvas rendered through a viewport,
  or an object URL of the file itself.
\<close>

datatype page_url = CanvasPNG viewport | ObjectURL js_file

definition scale_2_0 :: jsnum where
  "scale_2_0 = JFinite False [2] 1"

definition render_page :: "nat \<Rightarrow> page_url" where
  "render_page i = CanvasPNG \<lparr>vp_page = i, vp_scale = scale_2_0\<rparr>"

text \<open>The loop \<^verbatim>\<open>for (let i = 1; i <= maxPages; i++) { ...; urls.push(...) }\<close>.\<close>

function render_loop :: "nat \<Rightarrow> nat \<Rightarrow> page_url list \<Rightarrow> page_url list" where
  "render_loop i maxPages urls =
     (if i \<le> maxPages then render_loop (i + 1) maxPages (urls @ [render_page i]) else urls)"
  by pat_completeness auto
termination
  by (relation "measure (\<lambda>(i, maxPages, urls). Suc maxPages - i)") auto

declare render_loop.simps [simp del]

definition fileToPNGDataURL :: "js_file \<Rightarrow> js_error + page_url list" where
  "fileToPNGDataURL f =
     (if f_type f = ''application/pdf'' then
        (case f_pdf f of
           None \<Rightarrow> Inl PdfLoadError
         | Some numPages \<Rightarrow>
             (let maxPages = min numPages 5 in Inr (render_loop 1 maxPages [])))
      else Inr [ObjectURL f])"

section \<open>atob and Blob\<close>

text \<open>
  \<^verbatim>\<open>atob\<close> is the browser's forgiving base64 decoder: ASCII whitespace is removed; when the
  length is then a multiple of four, one or two trailing \<open>=\<close> are removed; a length that
  leaves remainder one, or a character outside the base64 alphabet, throws
  \<^verbatim>\<open>InvalidCharacterError\<close> (\<open>None\<close> here); each character then gives six bits, and
  the bits left over at the end (four after two characters, two after three) are dropped.
  The result is a string with one character per decoded byte.
\<close>

definition ascii_whitespace :: "char \<Rightarrow> bool" where
  "ascii_whitespace c \<longleftrightarrow> c \<in> set [CHR 0x09, CHR 0x0A, CHR 0x0C, CHR 0x0D, CHR 0x20]"

definition b64_alphabet :: string where
  "b64_alphabet = ''ABCDEFGHIJKLMNOPQRSTUVWXYZabcdefghijklmnopqrstuvwxyz0123456789+/''"

fun index_of :: "'a \<Rightarrow> 'a list \<Rightarrow> nat option" where
  "index_of x [] = None"
| "index_of x (y # ys) = (if x = y then Some 0 else map_option Suc (index_of x ys))"

definition b64_value :: "char \<Rightarrow> nat option" where
  "b64_value c = index_of c b64_alphabet"

definition strip_padding :: "string \<Rightarrow> string" where
  "strip_padding data =
     (if length data mod 4 = 0 then
        (case rev data of
           e1 # e2 # r \<Rightarrow>
             if e1 = CHR ''='' then (if e2 = CHR ''='' then rev r else rev (e2 # r)) else data
         | _ \<Rightarrow> data)
      else data)"

fun decode_sextets :: "nat list \<Rightarrow> byte list" where
  "decode_sextets (a # b # c # d # rest) =
     [of_nat (a * 4 + b div 16), of_nat (b mod 16 * 16 + c div 4), of_nat (c mod 4 * 64 + d)]
     @ decode_sextets rest"
| "decode_sextets [a, b, c] = [of_nat (a * 4 + b div 16), of_nat (b mod 16 * 16 + c div 4)]"
| "decode_sextets [a, b] = [of_nat (a * 4 + b div 16)]"
| "decode_sextets _ = []"

definition atob :: "string \<Rightarrow> string option" where
  "atob s =
     (let data = strip_padding (filter (\<lambda>c. \<not> ascii_whitespace c) s)
      in if length data mod 4 = 1 then None
         else (case those (map b64_value data) of
                 None \<Rightarrow> None
               | Some vs \<Rightarrow> Some (map (\<lambda>b. char_of (unat b)) (decode_sextets vs))))"

text \<open>
  \<^verbatim>\<open>new Blob([s])\<close> with a string part stores the UTF-8 encoding of the string. The
  strings here have code units below 256: a unit below 128 is one byte, any other unit is
  two bytes.
\<close>

definition utf8_unit :: "char \<Rightarrow> byte list" where
  "utf8_unit c =
     (let n = (of_char c :: nat)
      in if n < 128 then [of_nat n] else [of_nat (192 + n div 64), of_nat (128 + n mod 64)])"

definition utf8_encode :: "string \<Rightarrow> byte list" where
  "utf8_encode s = concat (map utf8_unit s)"

definition new_Blob :: "string \<Rightarrow> string \<Rightarrow> blob" where
  "new_Blob s ty = \<lparr>blob_bytes = utf8_encode s, blob_type = ty\<rparr>"

text \<open>
  Modelled from the spec: the encoder of the vectorization service. The worker's
  \<^verbatim>\<open>main.py\<close> is not among the sources; the spec calls the payload binary-encoded
  (base64), so the encoder is standard base64: three bytes give four alphabet characters,
  a final group of one or two bytes is padded with \<open>=\<close>.
\<close>

definition b64_char :: "nat \<Rightarrow> char" where
  "b64_char i = b64_alphabet ! i"

fun enc_vals :: "byte list \<Rightarrow> nat list" where
  "enc_vals (x # y # z # rest) =
     [unat x div 4, unat x mod 4 * 16 + unat y div 16, unat y mod 16 * 4 + unat z div 64,
      unat z mod 64] @ enc_vals rest"
| "enc_vals [x, y] = [unat x div 4, unat x mod 4 * 16 + unat y div 16, unat y mod 16 * 4]"
| "enc_vals [x] = [unat x div 4, unat x mod 4 * 16]"
| "enc_vals [] = []"

fun pad_len :: "byte list \<Rightarrow> nat" where
  "pad_len (x # y # z # rest) = pad_len rest"
| "pad_len [x, y] = 1"
| "pad_len [x] = 2"
| "pad_len [] = 0"

definition b64encode :: "byte list \<Rightarrow> string" where
  "b64encode bs = map b64_char (enc_vals bs) @ replicate (pad_len bs) CHR ''=''"

section \<open>The collaborators\<close>

text \<open>A field of a parsed JSON object: missing, \<^verbatim>\<open>null\<close>, or a value.\<close>

datatype 'a field = Absent | Null | Present 'a

text \<open>The string conversion \<^verbatim>\<open>atob\<close> applies to its argument.\<close>

fun to_js_string :: "string field \<Rightarrow> string" where
  "to_js_string Absent = ''undefined''"
| "to_js_string Null = ''null''"
| "to_js_string (Present s) = s"

record metrics =
  walls_len_ft :: jsnum
  line_count :: jsnum

text \<open>The parsed body of the worker's answer, as far as the component reads it.\<close>

record payload =
  svg :: "string field"
  p_metrics :: "metrics option"
  p_confidence :: "jsnum option"

datatype body = NotJson | JsonNull | JsonObject payload

text \<open>What \<^verbatim>\<open>fetch\<close> gives: a rejected promise, or a response with a status and a body.\<close>

datatype fetch_result = Rejected | Response nat body

record js_user =
  u_id :: string

record plan_row =
  p_id :: string
  p_user_id :: string
  p_name :: string
  page_count :: nat
  status :: string
  created_at :: nat

record output_row =
  o_plan_id :: string
  svg_path :: string
  dxf_path :: "string option"
  csv_path :: "string option"
  o_metrics :: "metrics option"
  o_confidence :: "jsnum option"

record review_row =
  r_plan_id :: string
  r_status :: string

record ledger_row =
  l_user_id :: string
  l_plan_id :: string
  event :: string
  delta_credits :: int

text \<open>The calls the component makes to its collaborators, in the order it makes them.\<close>

datatype request =
    InsertPlan string string nat
  | UploadTo string string blob
  | PostWorker string jsnum
  | InsertOutput output_row
  | UpdatePlan string nat string
  | SelectLatestPlan
  | InsertReview review_row
  | InsertLedger ledger_row
  | UpdateOutputsCsv string string

text \<open>
  The record store (four tables), the object store (two buckets, a path maps to the blob
  last written there) and the log of calls.
\<close>

record backend =
  plans :: "plan_row list"
  outputs :: "output_row list"
  reviews :: "review_row list"
  usage_ledger :: "ledger_row list"
  plans_bucket :: "(string \<times> blob) list"
  outputs_bucket :: "(string \<times> blob) list"
  requests :: "request list"

text \<open>The state of the React component.\<close>

record ui =
  ui_user :: "js_user option"
  ui_file :: "js_file option"
  pxPerFt :: jsnum
  preview :: "payload option"
  originalImg :: string

text \<open>
  What the collaborators answer during one \<^verbatim>\<open>handleUpload\<close>: the plan insert gives
  \<open>None\<close> for an error, or the id and creation time the store generated; \<open>first_page\<close>
  is \<^verbatim>\<open>fetch(dataUrls[0])\<close> followed by \<^verbatim>\<open>.blob()\<close> (its argument is \<open>None\<close> when
  \<^verbatim>\<open>dataUrls\<close> is empty, its result \<open>None\<close> when the promise rejects); the other
  fields say whether the store accepted the write.
\<close>

record upload_env =
  plans_insert :: "(string \<times> nat) option"
  first_page :: "page_url option \<Rightarrow> blob option"
  plans_upload_ok :: bool
  worker :: fetch_result
  svg_upload_ok :: bool
  outputs_insert_ok :: bool
  plans_update_ok :: bool

record approve_env =
  select_ok :: bool
  reviews_insert_ok :: bool
  ledger_insert_ok :: bool
  csv_upload_ok :: bool
  outputs_update_ok :: bool

text \<open>
  Modelled from the spec: the default of the \<^verbatim>\<open>status\<close> column, which the insert leaves
  to the store. The schema is not among the sources; the spec names the states
  \<open>created\<close> and \<open>processed\<close>.
\<close>

definition default_status :: string where
  "default_status = ''created''"

definition log :: "request \<Rightarrow> backend \<Rightarrow> backend" where
  "log r st = st\<lparr>requests := requests st @ [r]\<rparr>"

text \<open>\<^verbatim>\<open>upload(path, blob, { upsert: true })\<close>: the blob replaces whatever the path held.\<close>

definition upload :: "string \<Rightarrow> blob \<Rightarrow> (string \<times> blob) list \<Rightarrow> (string \<times> blob) list" where
  "upload path b bucket = (path, b) # filter (\<lambda>e. fst e \<noteq> path) bucket"

definition getPublicUrl :: "string \<Rightarrow> string \<Rightarrow> string" where
  "getPublicUrl bucket path = ''/storage/v1/object/public/'' @ bucket @ ''/'' @ path"

text \<open>
  \<^verbatim>\<open>.order('created_at', { ascending: false }).limit(1).single()\<close>: a row whose creation
  time no other row exceeds (among equal times the store may pick any; the model picks
  the first inserted).
\<close>

fun latest :: "plan_row list \<Rightarrow> plan_row option" where
  "latest [] = None"
| "latest (p # ps) =
     (case latest ps of
        None \<Rightarrow> Some p
      | Some q \<Rightarrow> if created_at p < created_at q then Some q else Some p)"

datatype outcome = Returned | Alerted string | Threw js_error

section \<open>handleUpload\<close>

text \<open>Lines 113 to 128: insert the outputs row, update the plan, report.\<close>

definition store_results ::
  "upload_env \<Rightarrow> string \<Rightarrow> nat \<Rightarrow> string \<Rightarrow> payload \<Rightarrow> backend \<Rightarrow> outcome \<times> backend" where
  "store_results env planId pageCount svgPath json st =
     (let row = \<lparr>o_plan_id = planId, svg_path = svgPath, dxf_path = None, csv_path = None,
                 o_metrics = p_metrics json, o_confidence = p_confidence json\<rparr>;
          st1 = log (InsertOutput row) st;
          st2 = (if outputs_insert_ok env then st1\<lparr>outputs := outputs st1 @ [row]\<rparr> else st1);
          st3 = log (UpdatePlan planId pageCount ''processed'') st2;
          st4 = (if plans_update_ok env
                 then st3\<lparr>plans := map (\<lambda>p. if p_id p = planId
                                            then p\<lparr>page_count := pageCount, status := ''processed''\<rparr>
                                            else p) (plans st3)\<rparr>
                 else st3)
      in (Alerted ''Processed. Review below.'', st4))"

text \<open>Lines 102 to 112: decode the SVG, store it in the outputs bucket.\<close>

definition svg_blob :: "string field \<Rightarrow> blob option" where
  "svg_blob s = map_option (\<lambda>svgBytes. new_Blob svgBytes ''image/svg+xml'') (atob (to_js_string s))"

definition save_svg ::
  "upload_env \<Rightarrow> js_user \<Rightarrow> string \<Rightarrow> nat \<Rightarrow> payload \<Rightarrow> backend \<Rightarrow> outcome \<times> backend" where
  "save_svg env user planId pageCount json st =
     (case svg_blob (svg json) of
        None \<Rightarrow> (Threw InvalidCharacterError, st)
      | Some svgBlob \<Rightarrow>
          (let svgPath = ''user-'' @ u_id user @ ''/'' @ planId @ ''/page-1.svg'';
               st1 = log (UploadTo ''outputs'' svgPath svgBlob) st
           in if \<not> svg_upload_ok env then (Alerted ''SVG store failed'', st1)
              else store_results env planId pageCount svgPath json
                     (st1\<lparr>outputs_bucket := upload svgPath svgBlob (outputs_bucket st1)\<rparr>)))"

text \<open>Lines 91 to 100: post to the worker, parse the body, keep it as the preview.\<close>

definition vectorize ::
  "upload_env \<Rightarrow> js_user \<Rightarrow> string \<Rightarrow> nat \<Rightarrow> string \<Rightarrow> ui \<Rightarrow> backend \<Rightarrow> outcome \<times> ui \<times> backend" where
  "vectorize env user planId pageCount publicUrl u st =
     (let st1 = log (PostWorker publicUrl (pxPerFt u)) st
      in case worker env of
           Rejected \<Rightarrow> (Threw TypeError, u, st1)
         | Response code b \<Rightarrow>
             (case b of
                NotJson \<Rightarrow> (Threw SyntaxError, u, st1)
              | JsonNull \<Rightarrow> (Threw TypeError, u\<lparr>preview := None\<rparr>, st1)
              | JsonObject json \<Rightarrow>
                  (let (res, st2) = save_svg env user planId pageCount json st1
                   in (res, u\<lparr>preview := Some json\<rparr>, st2))))"

definition handleUpload :: "upload_env \<Rightarrow> ui \<Rightarrow> backend \<Rightarrow> outcome \<times> ui \<times> backend" where
  "handleUpload env u st =
     (case (ui_user u, ui_file u) of
        (Some user, Some f) \<Rightarrow>
          (let st1 = log (InsertPlan (u_id user) (f_name f) 0) st
           in case plans_insert env of
                None \<Rightarrow> (Alerted ''DB plan error'', u, st1)
              | Some (planId, t) \<Rightarrow>
                  (let st2 = st1\<lparr>plans := plans st1 @
                               [\<lparr>p_id = planId, p_user_id = u_id user, p_name = f_name f,
                                 page_count = 0, status = default_status, created_at = t\<rparr>]\<rparr>
                   in case fileToPNGDataURL f of
                        Inl e \<Rightarrow> (Threw e, u, st2)
                      | Inr dataUrls \<Rightarrow>
                          (let pageCount = length dataUrls
                           in case first_page env (case dataUrls of [] \<Rightarrow> None | d # _ \<Rightarrow> Some d) of
                                None \<Rightarrow> (Threw TypeError, u, st2)
                              | Some b \<Rightarrow>
                                  (let path = ''user-'' @ u_id user @ ''/'' @ planId @ ''/page-1.png'';
                                       st3 = log (UploadTo ''plans'' path b) st2
                                   in if \<not> plans_upload_ok env
                                      then (Alerted ''Storage upload failed'', u, st3)
                                      else
                                        (let publicUrl = getPublicUrl ''plans'' path
                                         in vectorize env user planId pageCount publicUrl
                                              (u\<lparr>originalImg := publicUrl\<rparr>)
                                              (st3\<lparr>plans_bucket := upload path b (plans_bucket st3)\<rparr>))))))
      | _ \<Rightarrow> (Returned, u, st))"

section \<open>approveExport\<close>

definition build_csv :: "metrics \<Rightarrow> string" where
  "build_csv m =
     ''metric,value'' @ [CHR 0x0A] @
     ''walls_len_ft,'' @ num_to_string (walls_len_ft m) @ [CHR 0x0A] @
     ''line_count,'' @ num_to_string (line_count m) @ [CHR 0x0A]"

definition approveExport :: "approve_env \<Rightarrow> ui \<Rightarrow> backend \<Rightarrow> outcome \<times> backend" where
  "approveExport env u st =
     (case (ui_user u, preview u) of
        (Some user, Some pv) \<Rightarrow>
          (let st1 = log SelectLatestPlan st
           in case (if select_ok env then latest (plans st1) else None) of
                None \<Rightarrow> (Returned, st1)
              | Some latestPlan \<Rightarrow>
                  (let review = \<lparr>r_plan_id = p_id latestPlan, r_status = ''approved''\<rparr>;
                       st2 = log (InsertReview review) st1;
                       st3 = (if reviews_insert_ok env
                              then st2\<lparr>reviews := reviews st2 @ [review]\<rparr> else st2);
                       entry = \<lparr>l_user_id = u_id user, l_plan_id = p_id latestPlan,
                                event = ''export_approved'', delta_credits = - 1\<rparr>;
                       st4 = log (InsertLedger entry) st3;
                       st5 = (if ledger_insert_ok env
                              then st4\<lparr>usage_ledger := usage_ledger st4 @ [entry]\<rparr> else st4)
                   in case p_metrics pv of
                        None \<Rightarrow> (Threw TypeError, st5)
                      | Some m \<Rightarrow>
                          (let csv = build_csv m;
                               csvBlob = new_Blob csv ''text/csv'';
                               csvPath = ''user-'' @ u_id user @ ''/'' @ p_id latestPlan @ ''/page-1.csv'';
                               st6 = log (UploadTo ''outputs'' csvPath csvBlob) st5
                           in if csv_upload_ok env
                              then
                                (let st7 = st6\<lparr>outputs_bucket :=
                                                   upload csvPath csvBlob (outputs_bucket st6)\<rparr>;
                                     st8 = log (UpdateOutputsCsv (p_id latestPlan) csvPath) st7;
                                     st9 = (if outputs_update_ok env
                                            then st8\<lparr>outputs :=
                                                   map (\<lambda>r. if o_plan_id r = p_id latestPlan
                                                             then r\<lparr>csv_path := Some csvPath\<rparr>
                                                             else r) (outputs st8)\<rparr>
                                            else st8)
                                 in (Alerted ''Approved & exported CSV.'', st9))
                              else (Returned, st6))))
      | _ \<Rightarrow> (Returned, st))"

text \<open>The user pressing the approve button once per listed answer of the collaborators.\<close>

fun approvals :: "approve_env list \<Rightarrow> ui \<Rightarrow> backend \<Rightarrow> backend" where
  "approvals [] u st = st"
| "approvals (env # envs) u st = approvals envs u (snd (approveExport env u st))"

text \<open>The ledger sum: \<^verbatim>\<open>delta_credits\<close> added up over all entries.\<close>

definition balance :: "ledger_row list \<Rightarrow> int" where
  "balance ledger = sum_list (map delta_credits ledger)"

section \<open>Sample inputs\<close>




definition alice :: js_user where
  "alice = \<lparr>u_id = ''u1''\<rparr>"

definition empty_backend :: backend where
  "empty_backend = \<lparr>plans = [], outputs = [], reviews = [], usage_ledger = [],
     plans_bucket = [], outputs_bucket = [], requests = []\<rparr>"

text \<open>A plans table with a plan of user \<open>u1\<close> and a later plan of user \<open>u2\<close>.\<close>

definition bob_plan :: plan_row where
  "bob_plan = \<lparr>p_id = ''p7'', p_user_id = ''u2'', p_name = ''house.pdf'', page_count = 3,
     status = ''processed'', created_at = 20\<rparr>"

definition alice_plan :: plan_row where
  "alice_plan = \<lparr>p_id = ''p3'', p_user_id = ''u1'', p_name = ''flat.png'', page_count = 1,
     status = ''processed'', created_at = 10\<rparr>"

definition two_plans :: backend where
  "two_plans = empty_backend\<lparr>plans := [alice_plan, bob_plan]\<rparr>"

definition sample_metrics :: metrics where
  "sample_metrics =
     \<lparr>walls_len_ft = JFinite False [1, 2, 0, 5] 3, line_count = JFinite False [3, 4] 2\<rparr>"

text \<open>A worker answer; its \<^verbatim>\<open>svg\<close> field is the base64 of \<open><svg/>\<close>.\<close>

definition sample_payload :: payload where
  "sample_payload = \<lparr>svg = Present ''PHN2Zy8+'', p_metrics = Some sample_metrics,
     p_confidence = Some (JFinite False [9] 0)\<rparr>"

definition reviewing :: ui where
  "reviewing = \<lparr>ui_user = Some alice, ui_file = None,
     pxPerFt = JFinite False [1, 2] 2,
     preview = Some sample_payload, originalImg = ''''\<rparr>"

definition all_accepted :: approve_env where
  "all_accepted = \<lparr>select_ok = True, reviews_insert_ok = True, ledger_insert_ok = True,
     csv_upload_ok = True, outputs_update_ok = True\<rparr>"

definition ledger_rejecting :: approve_env where
  "ledger_rejecting = all_accepted\<lparr>ledger_insert_ok := False\<rparr>"

definition storage_down :: approve_env where
  "storage_down = all_accepted\<lparr>csv_upload_ok := False\<rparr>"

definition pdf3 :: js_file where
  "pdf3 = \<lparr>f_type = ''application/pdf'', f_name = ''house.pdf'', f_pdf = Some 3\<rparr>"

definition page_png :: blob where
  "page_png = \<lparr>blob_bytes = [0x89, 0x50, 0x4E, 0x47], blob_type = ''image/png''\<rparr>"

definition uploading :: ui where
  "uploading = \<lparr>ui_user = Some alice, ui_file = Some pdf3,
     pxPerFt = JFinite False [1, 2] 2,
     preview = None, originalImg = ''''\<rparr>"

definition upload_accepted :: upload_env where
  "upload_accepted = \<lparr>plans_insert = Some (''p9'', 30), first_page = (\<lambda>d. Some page_png),
     plans_upload_ok = True, worker = Response 200 (JsonObject sample_payload),
     svg_upload_ok = True, outputs_insert_ok = True, plans_update_ok = True\<rparr>"

definition outputs_rejecting :: upload_env where
  "outputs_rejecting = upload_accepted\<lparr>outputs_insert_ok := False\<rparr>"

definition worker_500 :: upload_env where
  "worker_500 = upload_accepted\<lparr>worker := Response 500 (JsonObject sample_payload)\<rparr>"

definition worker_null_svg :: upload_env where
  "worker_null_svg = upload_accepted\<lparr>worker :=
     Response 200 (JsonObject \<lparr>svg = Null, p_metrics = None, p_confidence = None\<rparr>)\<rparr>"

text \<open>A validation error of the worker: status 422 and a body without \<^verbatim>\<open>svg\<close>.\<close>

definition worker_422 :: upload_env where
  "worker_422 = upload_accepted\<lparr>worker :=
     Response 422 (JsonObject \<lparr>svg = Absent, p_metrics = None, p_confidence = None\<rparr>)\<rparr>"

definition worker_accented :: upload_env where
  "worker_accented = upload_accepted\<lparr>worker :=
     Response 200 (JsonObject (sample_payload\<lparr>svg := Present (b64encode [0xC3, 0xA9])\<rparr>))\<rparr>"

text \<open>Metrics whose numbers print in exponent form: \<open>1e21\<close> and \<open>1e-7\<close>.\<close>

definition extreme_metrics :: metrics where
  "extreme_metrics = \<lparr>walls_len_ft = JFinite False [1] 22, line_count = JFinite False [1] (- 6)\<rparr>"

definition extreme_payload :: payload where
  "extreme_payload = sample_payload\<lparr>p_metrics := Some extreme_metrics\<rparr>"

definition reviewing_extreme :: ui where
  "reviewing_extreme = reviewing\<lparr>preview := Some extreme_payload\<rparr>"

definition signed_out :: ui where
  "signed_out = reviewing\<lparr>ui_user := None\<rparr>"

definition no_preview :: ui where
  "no_preview = reviewing\<lparr>preview := None\<rparr>"

definition plans_rejecting :: upload_env where
  "plans_rejecting = upload_accepted\<lparr>plans_insert := None\<rparr>"

definition update_rejecting :: upload_env where
  "update_rejecting = upload_accepted\<lparr>plans_update_ok := False\<rparr>"

section \<open>Predicates of the statements\<close>

text \<open>
  The answers of the worker on which \<^verbatim>\<open>handleUpload\<close> stops: the promise rejects, the
  body is not JSON, the body is \<^verbatim>\<open>null\<close>, or \<^verbatim>\<open>atob\<close> rejects the \<^verbatim>\<open>svg\<close> field.
\<close>

definition worker_aborts :: "fetch_result \<Rightarrow> bool" where
  "worker_aborts w =
     (case w of
        Rejected \<Rightarrow> True
      | Response code b \<Rightarrow>
          (case b of
             NotJson \<Rightarrow> True
           | JsonNull \<Rightarrow> True
           | JsonObject json \<Rightarrow> atob (to_js_string (svg json)) = None))"

text \<open>A string all of whose characters are below 128.\<close>

definition ascii :: "string \<Rightarrow> bool" where
  "ascii s \<longleftrightarrow> (\<forall>c\<in>set s. (of_char c :: nat) < 128)"

section \<open>Results about fileToPNGDataURL\<close>





section \<open>The guards of both handlers\<close>

text \<open>
  C10. Without a signed-in user, or without a selected file, \<^verbatim>\<open>handleUpload\<close> returns
  at once with the component and the backend as they were: no row inserted or updated, no
  blob written, no call made. Without a user, or without a preview, \<^verbatim>\<open>approveExport\<close>
  does the same.
\<close>

theorem guards_are_noops:
  "(ui_user u = None \<or> ui_file u = None \<longrightarrow> handleUpload env u st = (Returned, u, st)) \<and>
   (ui_user u = None \<or> preview u = None \<longrightarrow> approveExport env' u st = (Returned, st))"
  by (auto simp: handleUpload_def approveExport_def split: option.splits)

text \<open>
  The statement at a signed-out component and at a component without a preview.
\<close>

theorem guards_are_noops_witness:
  "(ui_user signed_out = None \<or> ui_file signed_out = None) \<and>
   handleUpload upload_accepted signed_out two_plans = (Returned, signed_out, two_plans) \<and>
   (ui_user no_preview = None \<or> preview no_preview = None) \<and>
   approveExport all_accepted no_preview two_plans = (Returned, two_plans)"
  using guards_are_noops [of signed_out upload_accepted two_plans all_accepted]
    guards_are_noops [of no_preview upload_accepted two_plans all_accepted]
  by (simp add: signed_out_def no_preview_def reviewing_def)

section \<open>Results about handleUpload\<close>

text \<open>
  C9. When the insert of the plan row fails, \<^verbatim>\<open>handleUpload\<close> reports
  \<open>DB plan error\<close> and returns. The failed insert is the only call it has made: the
  four tables and both buckets are as before, no blob was uploaded and the worker was not
  called.
\<close>

theorem plan_insert_failure_aborts:
  assumes "ui_user u = Some user" and "ui_file u = Some f" and "plans_insert env = None"
  shows "handleUpload env u st =
           (Alerted ''DB plan error'', u,
            st\<lparr>requests := requests st @ [InsertPlan (u_id user) (f_name f) 0]\<rparr>)"
  using assms by (simp add: handleUpload_def log_def)

text \<open>
  The statement at a store that rejects the plan insert.
\<close>

theorem plan_insert_failure_aborts_witness:
  "ui_user uploading = Some alice \<and> ui_file uploading = Some pdf3 \<and>
   plans_insert plans_rejecting = None \<and>
   handleUpload plans_rejecting uploading two_plans =
     (Alerted ''DB plan error'', uploading,
      two_plans\<lparr>requests := [InsertPlan ''u1'' ''house.pdf'' 0]\<rparr>)"
  using plan_insert_failure_aborts [of uploading alice pdf3 plans_rejecting two_plans]
  by (simp add: uploading_def plans_rejecting_def upload_accepted_def alice_def pdf3_def
      two_plans_def empty_backend_def)

lemma map_of_upload: "map_of (upload path b bucket) path = Some b"
  by (simp add: upload_def)

lemma handleUpload_to_worker:
  assumes "ui_user u = Some user" and "ui_file u = Some f"
    and "plans_insert env = Some (planId, t)" and "fileToPNGDataURL f = Inr urls"
    and "first_page env (case urls of [] \<Rightarrow> None | d # _ \<Rightarrow> Some d) = Some b"
    and "plans_upload_ok env"
  shows "handleUpload env u st =
     (let path = ''user-'' @ u_id user @ ''/'' @ planId @ ''/page-1.png''
      in vectorize env user planId (length urls) (getPublicUrl ''plans'' path)
           (u\<lparr>originalImg := getPublicUrl ''plans'' path\<rparr>)
           (st\<lparr>plans := plans st @
                  [\<lparr>p_id = planId, p_user_id = u_id user, p_name = f_name f,
                    page_count = 0, status = default_status, created_at = t\<rparr>],
                requests := requests st @
                  [InsertPlan (u_id user) (f_name f) 0, UploadTo ''plans'' path b],
                plans_bucket := upload path b (plans_bucket st)\<rparr>))"
  using assms by (simp add: handleUpload_def log_def Let_def)

lemma vectorize_aborts:
  assumes "worker_aborts (worker env)"
  shows "\<exists>e pv. vectorize env user planId pageCount url u st =
           (Threw e, u\<lparr>preview := pv\<rparr>, st\<lparr>requests := requests st @ [PostWorker url (pxPerFt u)]\<rparr>)"
proof (cases "worker env")
  case Rejected
  then have "vectorize env user planId pageCount url u st =
      (Threw TypeError, u\<lparr>preview := preview u\<rparr>,
       st\<lparr>requests := requests st @ [PostWorker url (pxPerFt u)]\<rparr>)"
    by (simp add: vectorize_def log_def)
  then show ?thesis by blast
next
  case (Response code b)
  show ?thesis
  proof (cases b)
    case NotJson
    with Response have "vectorize env user planId pageCount url u st =
      (Threw SyntaxError, u\<lparr>preview := preview u\<rparr>,
       st\<lparr>requests := requests st @ [PostWorker url (pxPerFt u)]\<rparr>)"
      by (simp add: vectorize_def log_def)
    then show ?thesis by blast
  next
    case JsonNull
    with Response have "vectorize env user planId pageCount url u st =
      (Threw TypeError, u\<lparr>preview := None\<rparr>,
       st\<lparr>requests := requests st @ [PostWorker url (pxPerFt u)]\<rparr>)"
      by (simp add: vectorize_def log_def)
    then show ?thesis by blast
  next
    case (JsonObject json)
    with Response assms have "atob (to_js_string (svg json)) = None"
      by (simp add: worker_aborts_def)
    with Response JsonObject have "vectorize env user planId pageCount url u st =
      (Threw InvalidCharacterError, u\<lparr>preview := Some json\<rparr>,
       st\<lparr>requests := requests st @ [PostWorker url (pxPerFt u)]\<rparr>)"
      by (simp add: vectorize_def log_def save_svg_def svg_blob_def)
    then show ?thesis by blast
  qed
qed

lemma atob_undefined_literal: "atob ''undefined'' = None"
  by code_simp

lemma pdf3_urls:
  "fileToPNGDataURL pdf3 = Inr (map render_page [1, 2, 3])"
  by code_simp

text \<open>
  C2 (as the code has it). When \<^verbatim>\<open>handleUpload\<close> has reached the worker call and the
  worker's answer is one the code stops on (the promise rejects, the body is not JSON or
  is \<^verbatim>\<open>null\<close>, or the \<^verbatim>\<open>svg\<close> field does not decode), the handler throws. No outputs
  row is created, the outputs bucket is untouched, the plan row stays as inserted with
  \<open>page_count = 0\<close> and the default status, which is not \<open>processed\<close>, the first-page
  blob stays in the plans bucket, and the worker call is the last call made.
\<close>

theorem worker_failure_aborts:
  assumes "ui_user u = Some user" and "ui_file u = Some f"
    and "plans_insert env = Some (planId, t)" and "fileToPNGDataURL f = Inr urls"
    and "first_page env (case urls of [] \<Rightarrow> None | d # _ \<Rightarrow> Some d) = Some b"
    and "plans_upload_ok env"
    and "worker_aborts (worker env)"
  shows "(\<exists>e. fst (handleUpload env u st) = Threw e) \<and>
         outputs (snd (snd (handleUpload env u st))) = outputs st \<and>
         outputs_bucket (snd (snd (handleUpload env u st))) = outputs_bucket st \<and>
         plans (snd (snd (handleUpload env u st))) =
           plans st @
           [\<lparr>p_id = planId, p_user_id = u_id user, p_name = f_name f,
             page_count = 0, status = default_status, created_at = t\<rparr>] \<and>
         default_status \<noteq> ''processed'' \<and>
         map_of (plans_bucket (snd (snd (handleUpload env u st))))
           (''user-'' @ u_id user @ ''/'' @ planId @ ''/page-1.png'') = Some b \<and>
         requests (snd (snd (handleUpload env u st))) =
           requests st @
           [InsertPlan (u_id user) (f_name f) 0,
            UploadTo ''plans'' (''user-'' @ u_id user @ ''/'' @ planId @ ''/page-1.png'') b,
            PostWorker (getPublicUrl ''plans'' (''user-'' @ u_id user @ ''/'' @ planId @ ''/page-1.png''))
              (pxPerFt u)]"
proof -
  let ?path = "''user-'' @ u_id user @ ''/'' @ planId @ ''/page-1.png''"
  let ?u = "u\<lparr>originalImg := getPublicUrl ''plans'' ?path\<rparr>"
  let ?st = "st\<lparr>plans := plans st @
                  [\<lparr>p_id = planId, p_user_id = u_id user, p_name = f_name f,
                    page_count = 0, status = default_status, created_at = t\<rparr>],
                requests := requests st @
                  [InsertPlan (u_id user) (f_name f) 0, UploadTo ''plans'' ?path b],
                plans_bucket := upload ?path b (plans_bucket st)\<rparr>"
  have h: "handleUpload env u st =
      vectorize env user planId (length urls) (getPublicUrl ''plans'' ?path) ?u ?st"
    by (simp only: handleUpload_to_worker [OF assms(1-6)] Let_def)
  from vectorize_aborts [OF assms(7), of user planId "length urls" "getPublicUrl ''plans'' ?path" ?u ?st]
  obtain e pv where "vectorize env user planId (length urls) (getPublicUrl ''plans'' ?path) ?u ?st =
      (Threw e, ?u\<lparr>preview := pv\<rparr>,
       ?st\<lparr>requests := requests ?st @ [PostWorker (getPublicUrl ''plans'' ?path) (pxPerFt ?u)]\<rparr>)"
    by blast
  then show ?thesis
    unfolding h by (simp add: map_of_upload default_status_def)
qed

text \<open>
  The statement at a worker that answers 422 with a body that has no \<^verbatim>\<open>svg\<close> field.
\<close>

theorem worker_failure_aborts_witness:
  "ui_user uploading = Some alice \<and> ui_file uploading = Some pdf3 \<and>
   plans_insert worker_422 = Some (''p9'', 30) \<and>
   fileToPNGDataURL pdf3 = Inr (map render_page [1, 2, 3]) \<and>
   first_page worker_422 (Some (render_page 1)) = Some page_png \<and>
   plans_upload_ok worker_422 \<and> worker_aborts (worker worker_422) \<and>
   (\<exists>e. fst (handleUpload worker_422 uploading empty_backend) = Threw e) \<and>
   outputs (snd (snd (handleUpload worker_422 uploading empty_backend))) = [] \<and>
   plans (snd (snd (handleUpload worker_422 uploading empty_backend))) =
     [\<lparr>p_id = ''p9'', p_user_id = ''u1'', p_name = ''house.pdf'', page_count = 0,
       status = ''created'', created_at = 30\<rparr>] \<and>
   map_of (plans_bucket (snd (snd (handleUpload worker_422 uploading empty_backend))))
     ''user-u1/p9/page-1.png'' = Some page_png"
proof -
  have h: "ui_user uploading = Some alice" "ui_file uploading = Some pdf3"
    by (simp_all add: uploading_def)
  have e: "plans_insert worker_422 = Some (''p9'', 30)"
    "first_page worker_422 (case map render_page [1, 2, 3] of [] \<Rightarrow> None | d # _ \<Rightarrow> Some d)
       = Some page_png"
    "plans_upload_ok worker_422"
    by (simp_all add: worker_422_def upload_accepted_def)
  have a: "worker_aborts (worker worker_422)"
    by (simp add: worker_aborts_def worker_422_def upload_accepted_def atob_undefined_literal)
  note w = worker_failure_aborts [OF h e(1) pdf3_urls e(2) e(3) a, of empty_backend]
  from w h e a pdf3_urls show ?thesis
    by (simp add: alice_def pdf3_def empty_backend_def default_status_def)
qed

text \<open>
  C2 as stated does not hold: the status of the response is never read. A response with
  status 500 whose body carries a decodable \<^verbatim>\<open>svg\<close>, and a body whose \<^verbatim>\<open>svg\<close> is
  \<^verbatim>\<open>null\<close> and that has no metrics, are both processed to the end: an outputs row is
  written and the plan becomes \<open>processed\<close>.
\<close>

theorem non_2xx_is_processed:
  "fst (handleUpload worker_500 uploading empty_backend) = Alerted ''Processed. Review below.'' \<and>
   map o_plan_id (outputs (snd (snd (handleUpload worker_500 uploading empty_backend)))) = [''p9''] \<and>
   map status (plans (snd (snd (handleUpload worker_500 uploading empty_backend)))) = [''processed''] \<and>
   fst (handleUpload worker_null_svg uploading empty_backend) = Alerted ''Processed. Review below.'' \<and>
   map o_plan_id (outputs (snd (snd (handleUpload worker_null_svg uploading empty_backend)))) = [''p9''] \<and>
   map status (plans (snd (snd (handleUpload worker_null_svg uploading empty_backend)))) = [''processed'']"
  by code_simp

lemma vectorize_accepted:
  assumes "worker env = Response code (JsonObject json)"
    and "svg_blob (svg json) = Some sb" and "svg_upload_ok env"
    and "outputs_insert_ok env" and "plans_update_ok env"
  shows "vectorize env user planId pageCount url u st =
     (let svgPath = ''user-'' @ u_id user @ ''/'' @ planId @ ''/page-1.svg'';
          row = \<lparr>o_plan_id = planId, svg_path = svgPath, dxf_path = None, csv_path = None,
                  o_metrics = p_metrics json, o_confidence = p_confidence json\<rparr>
      in (Alerted ''Processed. Review below.'', u\<lparr>preview := Some json\<rparr>,
          st\<lparr>requests := requests st @
                 [PostWorker url (pxPerFt u), UploadTo ''outputs'' svgPath sb, InsertOutput row,
                  UpdatePlan planId pageCount ''processed''],
               outputs_bucket := upload svgPath sb (outputs_bucket st),
               outputs := outputs st @ [row],
               plans := map (\<lambda>p. if p_id p = planId
                                   then p\<lparr>page_count := pageCount, status := ''processed''\<rparr>
                                   else p) (plans st)\<rparr>))"
  using assms
  by (simp add: vectorize_def save_svg_def store_results_def log_def Let_def)

text \<open>
  When every collaborator accepts every call, and the store's new plan id is fresh, the
  handler ends with exactly one outputs row for the plan, the plan \<open>processed\<close> with the
  number of rasterized pages, the SVG blob at its path, and the plan update as the last
  call, right after the outputs insert.
\<close>

lemma handleUpload_all_accepted:
  assumes "ui_user u = Some user" and "ui_file u = Some f"
    and "plans_insert env = Some (planId, t)" and "fileToPNGDataURL f = Inr urls"
    and "first_page env (case urls of [] \<Rightarrow> None | d # _ \<Rightarrow> Some d) = Some b"
    and "plans_upload_ok env"
    and "worker env = Response code (JsonObject json)"
    and "svg_blob (svg json) = Some sb" and "svg_upload_ok env"
    and "outputs_insert_ok env" and "plans_update_ok env"
    and "\<forall>p\<in>set (plans st). p_id p \<noteq> planId"
    and "\<forall>r\<in>set (outputs st). o_plan_id r \<noteq> planId"
  shows "fst (handleUpload env u st) = Alerted ''Processed. Review below.'' \<and>
         filter (\<lambda>r. o_plan_id r = planId) (outputs (snd (snd (handleUpload env u st)))) =
           [\<lparr>o_plan_id = planId,
             svg_path = ''user-'' @ u_id user @ ''/'' @ planId @ ''/page-1.svg'',
             dxf_path = None, csv_path = None,
             o_metrics = p_metrics json, o_confidence = p_confidence json\<rparr>] \<and>
         plans (snd (snd (handleUpload env u st))) =
           plans st @
           [\<lparr>p_id = planId, p_user_id = u_id user, p_name = f_name f,
             page_count = length urls, status = ''processed'', created_at = t\<rparr>] \<and>
         map_of (outputs_bucket (snd (snd (handleUpload env u st))))
           (''user-'' @ u_id user @ ''/'' @ planId @ ''/page-1.svg'') = Some sb \<and>
         (\<exists>pre row. requests (snd (snd (handleUpload env u st))) =
            pre @ [InsertOutput row, UpdatePlan planId (length urls) ''processed''])"
proof -
  have m: "map (\<lambda>p. if p_id p = planId
                     then p\<lparr>page_count := length urls, status := ''processed''\<rparr> else p) (plans st)
           = plans st"
    using assms(12) by (induction "plans st") (auto simp: map_idI)
  have o: "filter (\<lambda>r. o_plan_id r = planId) (outputs st) = []"
    using assms(13) by (simp add: filter_empty_conv)
  show ?thesis
    unfolding handleUpload_to_worker [OF assms(1-6)] Let_def
      vectorize_accepted [OF assms(7-11)]
    by (simp add: m o map_of_upload)
qed

text \<open>
  C1 fails on the code. The results of the outputs insert and of the plan update are not
  looked at, unlike those of the plan insert and of both uploads. When the store rejects
  the outputs insert, the handler still marks the plan \<open>processed\<close> and reports
  \<open>Processed. Review below.\<close> with no outputs row for the plan; when the store rejects
  the plan update, it reports the same while the plan keeps \<open>page_count = 0\<close> and its
  initial status.
\<close>

theorem processed_without_output:
  "fst (handleUpload outputs_rejecting uploading empty_backend) = Alerted ''Processed. Review below.'' \<and>
   outputs (snd (snd (handleUpload outputs_rejecting uploading empty_backend))) = [] \<and>
   plans (snd (snd (handleUpload outputs_rejecting uploading empty_backend))) =
     [\<lparr>p_id = ''p9'', p_user_id = ''u1'', p_name = ''house.pdf'', page_count = 3,
       status = ''processed'', created_at = 30\<rparr>] \<and>
   fst (handleUpload update_rejecting uploading empty_backend) = Alerted ''Processed. Review below.'' \<and>
   plans (snd (snd (handleUpload update_rejecting uploading empty_backend))) =
     [\<lparr>p_id = ''p9'', p_user_id = ''u1'', p_name = ''house.pdf'', page_count = 0,
       status = ''created'', created_at = 30\<rparr>]"
  by code_simp

section \<open>Decoding and storing the SVG\<close>

lemma index_of_nth: "distinct xs \<Longrightarrow> i < length xs \<Longrightarrow> index_of (xs ! i) xs = Some i"
proof (induction xs arbitrary: i)
  case Nil
  then show ?case by simp
next
  case (Cons x xs)
  show ?case
  proof (cases i)
    case 0
    then show ?thesis by simp
  next
    case (Suc j)
    with Cons.prems have "xs ! j \<in> set xs" "x \<notin> set xs" by simp_all
    then have "xs ! j \<noteq> x" by blast
    with Suc Cons show ?thesis by simp
  qed
qed

lemma distinct_alphabet: "distinct b64_alphabet"
  by (simp add: b64_alphabet_def)

lemma length_alphabet: "length b64_alphabet = 64"
  by (simp add: b64_alphabet_def)

lemma b64_value_char: "i < 64 \<Longrightarrow> b64_value (b64_char i) = Some i"
  by (simp add: b64_value_def b64_char_def index_of_nth distinct_alphabet length_alphabet)

lemma b64_char_in: "i < 64 \<Longrightarrow> b64_char i \<in> set b64_alphabet"
  by (simp add: b64_char_def length_alphabet)

lemma alphabet_plain: "c \<in> set b64_alphabet \<Longrightarrow> \<not> ascii_whitespace c \<and> c \<noteq> CHR ''=''"
  by (auto simp: b64_alphabet_def ascii_whitespace_def)

lemma b64_char_plain: "i < 64 \<Longrightarrow> \<not> ascii_whitespace (b64_char i) \<and> b64_char i \<noteq> CHR ''=''"
  using alphabet_plain b64_char_in by blast

lemma unat_byte_less: "unat (x :: byte) < 256"
  using unsigned_less [of x, where 'a = nat] by simp

lemma enc_vals_bound: "\<forall>v\<in>set (enc_vals bs). v < 64"
proof (induction bs rule: enc_vals.induct)
  case (1 x y z rest)
  have "unat x < 256" "unat y < 256" "unat z < 256" by (rule unat_byte_less)+
  then have "unat x div 4 < 64" "unat x mod 4 * 16 + unat y div 16 < 64"
    "unat y mod 16 * 4 + unat z div 64 < 64" by arith+
  with 1 show ?case by simp
next
  case (2 x y)
  have "unat x < 256" "unat y < 256" by (rule unat_byte_less)+
  then have "unat x div 4 < 64" "unat x mod 4 * 16 + unat y div 16 < 64"
    "unat y mod 16 * 4 < 64" by arith+
  then show ?case by simp
next
  case (3 x)
  have "unat x < 256" by (rule unat_byte_less)
  then have "unat x div 4 < 64" "unat x mod 4 * 16 < 64" by arith+
  then show ?case by simp
next
  case 4
  show ?case by simp
qed

lemma pad_len_le: "pad_len bs \<le> 2"
  by (induction bs rule: pad_len.induct) simp_all

lemma enc_len: "(length (enc_vals bs) + pad_len bs) mod 4 = 0"
  by (induction bs rule: enc_vals.induct) (simp_all add: Let_def)

lemma enc_len_not1: "length (enc_vals bs) mod 4 \<noteq> 1"
  by (induction bs rule: enc_vals.induct) (simp_all add: Let_def)

lemma those_values: "\<forall>v\<in>set vs. v < 64 \<Longrightarrow> those (map b64_value (map b64_char vs)) = Some vs"
  by (induction vs) (simp_all add: b64_value_char)

lemma eq_not_whitespace: "\<not> ascii_whitespace CHR ''=''"
  by (simp add: ascii_whitespace_def)

lemma filter_plain:
  "\<forall>v\<in>set vs. v < 64 \<Longrightarrow>
   filter (\<lambda>c. \<not> ascii_whitespace c) (map b64_char vs @ replicate k CHR ''='') =
   map b64_char vs @ replicate k CHR ''=''"
  by (induction vs) (simp_all add: b64_char_plain eq_not_whitespace)

lemma strip_padding_encoded:
  assumes "\<forall>v\<in>set vs. v < 64" and "k \<le> 2" and "(length vs + k) mod 4 = 0"
  shows "strip_padding (map b64_char vs @ replicate k CHR ''='') = map b64_char vs"
proof (cases "vs = []")
  case True
  with assms have "k = 0" by (cases k) auto
  with True show ?thesis by (simp add: strip_padding_def)
next
  case False
  then obtain us u where vs: "vs = us @ [u]"
    by (metis rev_exhaust)
  with assms(1) have u: "b64_char u \<noteq> CHR ''=''"
    by (simp add: b64_char_plain)
  from assms(2) have "k = 0 \<or> k = 1 \<or> k = 2" by arith
  then show ?thesis
  proof (elim disjE)
    assume k: "k = 0"
    show ?thesis
    proof (cases us rule: rev_cases)
      case Nil
      with vs k assms(3) show ?thesis by simp
    next
      case (snoc ws w)
      with vs k u assms(3) show ?thesis by (simp add: strip_padding_def)
    qed
  next
    assume k: "k = 1"
    with vs u assms(3) show ?thesis by (simp add: strip_padding_def)
  next
    assume k: "k = 2"
    with vs u assms(3) show ?thesis by (simp add: strip_padding_def numeral_2_eq_2)
  qed
qed

lemma split_div: "q < n \<Longrightarrow> (p * n + q) div n = (p::nat)"
  by simp

lemma split_mod: "q < n \<Longrightarrow> (p * n + q) mod n = (q::nat)"
  by simp

lemma regroup:
  fixes a b c :: nat
  assumes "b < 256" "c < 256"
  shows "a div 4 * 4 + (a mod 4 * 16 + b div 16) div 16 = a"
    and "(a mod 4 * 16 + b div 16) mod 16 * 16 + (b mod 16 * 4 + c div 64) div 4 = b"
    and "(b mod 16 * 4 + c div 64) mod 4 * 64 + c mod 64 = c"
    and "(a mod 4 * 16 + b div 16) mod 16 * 16 + (b mod 16 * 4) div 4 = b"
    and "a div 4 * 4 + (a mod 4 * 16) div 16 = a"
proof -
  from assms have q: "b div 16 < 16" "c div 64 < 4" by simp_all
  show "a div 4 * 4 + (a mod 4 * 16 + b div 16) div 16 = a"
    by (simp only: split_div [OF q(1)] div_mult_mod_eq)
  show "(a mod 4 * 16 + b div 16) mod 16 * 16 + (b mod 16 * 4 + c div 64) div 4 = b"
    by (simp only: split_mod [OF q(1)] split_div [OF q(2)] div_mult_mod_eq)
  show "(b mod 16 * 4 + c div 64) mod 4 * 64 + c mod 64 = c"
    by (simp only: split_mod [OF q(2)] div_mult_mod_eq)
  have z: "(b mod 16 * 4) div 4 = b mod 16" by simp
  show "(a mod 4 * 16 + b div 16) mod 16 * 16 + (b mod 16 * 4) div 4 = b"
    by (simp only: split_mod [OF q(1)] z div_mult_mod_eq)
  have z2: "(a mod 4 * 16) div 16 = a mod 4" by simp
  show "a div 4 * 4 + (a mod 4 * 16) div 16 = a"
    by (simp only: z2 div_mult_mod_eq)
qed

lemma of_nat_unat_byte: "of_nat (unat x) = (x :: byte)"
  by simp

lemma decode_enc: "decode_sextets (enc_vals bs) = bs"
proof (induction bs rule: enc_vals.induct)
  case (1 x y z rest)
  have "unat y < 256" "unat z < 256" by (rule unat_byte_less)+
  note r = regroup [OF this]
  have "decode_sextets (enc_vals (x # y # z # rest)) =
        [of_nat (unat x), of_nat (unat y), of_nat (unat z)] @ decode_sextets (enc_vals rest)"
    by (simp only: enc_vals.simps append_Cons append_Nil decode_sextets.simps r)
  with 1 show ?case by (simp only: of_nat_unat_byte append_Cons append_Nil)
next
  case (2 x y)
  have "unat y < 256" "unat y < 256" by (rule unat_byte_less)+
  note r = regroup [OF this]
  have "decode_sextets (enc_vals [x, y]) = [of_nat (unat x), of_nat (unat y)]"
    by (simp only: enc_vals.simps decode_sextets.simps r)
  then show ?case by (simp only: of_nat_unat_byte)
next
  case (3 x)
  have "unat x < 256" "unat x < 256" by (rule unat_byte_less)+
  note r = regroup [OF this]
  have "decode_sextets (enc_vals [x]) = [of_nat (unat x)]"
    by (simp only: enc_vals.simps decode_sextets.simps r)
  then show ?case by (simp only: of_nat_unat_byte)
next
  case 4
  show ?case by simp
qed

text \<open>
  \<^verbatim>\<open>atob\<close> inverts the encoder: the decoded string has one character per original byte.
\<close>

lemma atob_b64encode: "atob (b64encode bs) = Some (map (\<lambda>b. char_of (unat b)) bs)"
proof -
  let ?vs = "enc_vals bs"
  have b: "\<forall>v\<in>set ?vs. v < 64" by (rule enc_vals_bound)
  have f: "filter (\<lambda>c. \<not> ascii_whitespace c) (b64encode bs) = b64encode bs"
    unfolding b64encode_def by (rule filter_plain [OF b])
  have s: "strip_padding (b64encode bs) = map b64_char ?vs"
    unfolding b64encode_def by (rule strip_padding_encoded [OF b pad_len_le enc_len])
  have l: "length (map b64_char ?vs) mod 4 \<noteq> 1"
    using enc_len_not1 [of bs] by simp
  have t: "those (map b64_value (map b64_char ?vs)) = Some ?vs"
    by (rule those_values [OF b])
  show ?thesis
    unfolding atob_def f s Let_def t using l by (simp add: decode_enc)
qed

lemma utf8_ascii:
  "\<forall>b\<in>set bs. b < 128 \<Longrightarrow> utf8_encode (map (\<lambda>b. char_of (unat b)) bs) = (bs :: byte list)"
proof (induction bs)
  case Nil
  show ?case by (simp add: utf8_encode_def)
next
  case (Cons b bs)
  then have "b < 128" by simp
  then have lt: "unat b < 128" by (simp add: word_less_nat_alt)
  then have "of_char (char_of (unat b)) = unat b"
    by simp
  with lt have "utf8_unit (char_of (unat b)) = [b]"
    by (simp add: utf8_unit_def Let_def)
  with Cons show ?case by (simp add: utf8_encode_def)
qed

lemma svg_blob_b64encode:
  "svg_blob (Present (b64encode bs)) =
     Some \<lparr>blob_bytes = utf8_encode (map (\<lambda>b. char_of (unat b)) bs), blob_type = ''image/svg+xml''\<rparr>"
  by (simp add: svg_blob_def atob_b64encode new_Blob_def)

lemma svg_blob_ascii_roundtrip:
  "\<forall>b\<in>set bs. b < 128 \<Longrightarrow>
   svg_blob (Present (b64encode bs)) = Some \<lparr>blob_bytes = bs, blob_type = ''image/svg+xml''\<rparr>"
  by (simp add: svg_blob_b64encode utf8_ascii)

lemma length_utf8_bytes:
  "length (utf8_encode (map (\<lambda>b. char_of (unat b)) bs)) =
     length bs + length (filter (\<lambda>b. \<not> b < 128) (bs :: byte list))"
proof (induction bs)
  case Nil
  show ?case by (simp add: utf8_encode_def)
next
  case (Cons b bs)
  have "unat b < 256" by (rule unat_byte_less)
  then have c: "unat b mod 256 = unat b" by simp
  have "length (utf8_unit (char_of (unat b))) = (if b < 128 then 1 else 2)"
    by (simp add: utf8_unit_def Let_def c word_less_nat_alt)
  with Cons show ?case by (simp add: utf8_encode_def)
qed

text \<open>
  The stored blob equals the bytes the service encoded exactly when all of them are below
  128: the blob is built from the decoded string, which is stored in UTF-8, so every byte
  from 128 on becomes two bytes.
\<close>

lemma svg_blob_roundtrip_iff:
  "svg_blob (Present (b64encode bs)) = Some \<lparr>blob_bytes = bs, blob_type = ''image/svg+xml''\<rparr>
     \<longleftrightarrow> (\<forall>b\<in>set bs. b < 128)"
proof
  assume "svg_blob (Present (b64encode bs)) = Some \<lparr>blob_bytes = bs, blob_type = ''image/svg+xml''\<rparr>"
  then have "utf8_encode (map (\<lambda>b. char_of (unat b)) bs) = bs"
    by (simp add: svg_blob_b64encode)
  then have "length (utf8_encode (map (\<lambda>b. char_of (unat b)) bs)) = length bs" by simp
  then have "filter (\<lambda>b. \<not> b < 128) bs = []"
    by (simp add: length_utf8_bytes)
  then show "\<forall>b\<in>set bs. b < 128"
    by (simp add: filter_empty_conv)
next
  assume "\<forall>b\<in>set bs. b < 128"
  then show "svg_blob (Present (b64encode bs)) =
      Some \<lparr>blob_bytes = bs, blob_type = ''image/svg+xml''\<rparr>"
    by (rule svg_blob_ascii_roundtrip)
qed

text \<open>
  C8 fails on the code. The service encodes the two bytes \<open>C3 A9\<close> (an \<open>e\<close> with acute
  accent in an SVG text) as \<open>w6k=\<close>; the handler stores the four bytes
  \<open>C3 83 C2 A9\<close> in the outputs bucket.
\<close>

theorem svg_store_reencodes:
  "b64encode [0xC3, 0xA9] = ''w6k='' \<and>
   svg_blob (Present ''w6k='') =
     Some \<lparr>blob_bytes = [0xC3, 0x83, 0xC2, 0xA9], blob_type = ''image/svg+xml''\<rparr> \<and>
   map_of (outputs_bucket (snd (snd (handleUpload worker_accented uploading empty_backend))))
     ''user-u1/p9/page-1.svg'' =
     Some \<lparr>blob_bytes = [0xC3, 0x83, 0xC2, 0xA9], blob_type = ''image/svg+xml''\<rparr>"
  by code_simp

section \<open>Results about approveExport\<close>

lemma latest_Nil_iff: "latest ps = None \<longleftrightarrow> ps = []"
  by (induction ps) (auto split: option.splits)

lemma latest_max:
  "latest ps = Some q \<Longrightarrow> q \<in> set ps \<and> (\<forall>p\<in>set ps. created_at p \<le> created_at q)"
proof (induction ps arbitrary: q)
  case Nil
  then show ?case by simp
next
  case (Cons p ps)
  show ?case
  proof (cases "latest ps")
    case None
    then have "ps = []" by (simp add: latest_Nil_iff)
    with Cons.prems show ?thesis by simp
  next
    case (Some r)
    with Cons.IH have r: "r \<in> set ps" "\<forall>p\<in>set ps. created_at p \<le> created_at r" by simp_all
    from Some Cons.prems have "q = (if created_at p < created_at r then r else p)"
      by (simp split: if_splits)
    with r show ?thesis by (auto intro: order_trans)
  qed
qed

lemma approveExport_plans [simp]: "plans (snd (approveExport env u st)) = plans st"
  by (simp add: approveExport_def log_def Let_def split: option.splits)

lemma approveExport_ledger:
  assumes "ui_user u = Some user" and "preview u = Some pv"
    and "select_ok env" and "latest (plans st) = Some q"
  shows "usage_ledger (snd (approveExport env u st)) =
           usage_ledger st @
           (if ledger_insert_ok env
            then [\<lparr>l_user_id = u_id user, l_plan_id = p_id q,
                   event = ''export_approved'', delta_credits = - 1\<rparr>]
            else [])"
  using assms by (simp add: approveExport_def log_def Let_def split: option.splits)

lemma approveExport_requests:
  assumes "ui_user u = Some user" and "preview u = Some pv"
    and "select_ok env" and "latest (plans st) = Some q"
  shows "\<exists>rest. requests (snd (approveExport env u st)) =
           requests st @
           [SelectLatestPlan,
            InsertReview \<lparr>r_plan_id = p_id q, r_status = ''approved''\<rparr>,
            InsertLedger \<lparr>l_user_id = u_id user, l_plan_id = p_id q,
                          event = ''export_approved'', delta_credits = - 1\<rparr>] @ rest \<and>
           (\<forall>r\<in>set rest. \<forall>e. r \<noteq> InsertLedger e)"
  using assms by (simp add: approveExport_def log_def Let_def split: option.splits)

lemma balance_append: "balance (xs @ ys) = balance xs + balance ys"
  by (simp add: balance_def)

lemma approvals_balance:
  assumes "ui_user u = Some user" and "preview u = Some pv" and "plans st \<noteq> []"
    and "\<forall>env\<in>set envs. select_ok env \<and> ledger_insert_ok env"
  shows "balance (usage_ledger (approvals envs u st)) =
           balance (usage_ledger st) - int (length envs)"
  using assms(3,4)
proof (induction envs arbitrary: st)
  case Nil
  show ?case by simp
next
  case (Cons env envs)
  from Cons.prems(1) obtain q where q: "latest (plans st) = Some q"
    using latest_Nil_iff [of "plans st"] by (cases "latest (plans st)") auto
  let ?st = "snd (approveExport env u st)"
  from Cons.prems have ok: "select_ok env" "ledger_insert_ok env" by simp_all
  have "balance (usage_ledger ?st) = balance (usage_ledger st) - 1"
    using approveExport_ledger [OF assms(1,2) ok(1) q] ok(2)
    by (simp add: balance_append) (simp add: balance_def)
  moreover have "balance (usage_ledger (approvals envs u ?st)) =
      balance (usage_ledger ?st) - int (length envs)"
    using Cons.prems by (intro Cons.IH) simp_all
  ultimately show ?case by simp
qed

lemma latest_two_plans: "latest (plans two_plans) = Some bob_plan"
  by (simp add: two_plans_def empty_backend_def alice_plan_def bob_plan_def)

text \<open>
  What the code does about the debit. Every call that gets past the plan resolution
  issues exactly one ledger insert, for the event \<open>export_approved\<close> with
  \<open>delta_credits = -1\<close>; nothing in the call reads the ledger or a balance. Whenever the
  store accepts the insert, the ledger grows by exactly that entry and its sum drops by
  one, so \<open>n\<close> approvals whose inserts are accepted lower the sum by \<open>n\<close>.
\<close>

lemma approveExport_debit:
  assumes "ui_user u = Some user" and "preview u = Some pv"
  shows "(select_ok env \<and> latest (plans st) = Some q \<longrightarrow>
            (\<exists>rest. requests (snd (approveExport env u st)) =
               requests st @
               [SelectLatestPlan,
                InsertReview \<lparr>r_plan_id = p_id q, r_status = ''approved''\<rparr>,
                InsertLedger \<lparr>l_user_id = u_id user, l_plan_id = p_id q,
                              event = ''export_approved'', delta_credits = - 1\<rparr>] @ rest \<and>
               (\<forall>r\<in>set rest. \<forall>e. r \<noteq> InsertLedger e)) \<and>
            (ledger_insert_ok env \<longrightarrow>
               usage_ledger (snd (approveExport env u st)) =
                 usage_ledger st @
                 [\<lparr>l_user_id = u_id user, l_plan_id = p_id q,
                   event = ''export_approved'', delta_credits = - 1\<rparr>] \<and>
               balance (usage_ledger (snd (approveExport env u st))) =
                 balance (usage_ledger st) - 1)) \<and>
         (plans st \<noteq> [] \<and> (\<forall>e\<in>set envs. select_ok e \<and> ledger_insert_ok e) \<longrightarrow>
            balance (usage_ledger (approvals envs u st)) =
              balance (usage_ledger st) - int (length envs))"
proof (intro conjI impI)
  assume a: "select_ok env \<and> latest (plans st) = Some q"
  then show "\<exists>rest. requests (snd (approveExport env u st)) =
               requests st @
               [SelectLatestPlan,
                InsertReview \<lparr>r_plan_id = p_id q, r_status = ''approved''\<rparr>,
                InsertLedger \<lparr>l_user_id = u_id user, l_plan_id = p_id q,
                              event = ''export_approved'', delta_credits = - 1\<rparr>] @ rest \<and>
               (\<forall>r\<in>set rest. \<forall>e. r \<noteq> InsertLedger e)"
    using approveExport_requests [OF assms] by blast
  assume "ledger_insert_ok env"
  with a approveExport_ledger [OF assms, of env st q]
  show l: "usage_ledger (snd (approveExport env u st)) =
                 usage_ledger st @
                 [\<lparr>l_user_id = u_id user, l_plan_id = p_id q,
                   event = ''export_approved'', delta_credits = - 1\<rparr>]"
    by simp
  show "balance (usage_ledger (snd (approveExport env u st))) = balance (usage_ledger st) - 1"
    unfolding l by (simp add: balance_def)
next
  assume "plans st \<noteq> [] \<and> (\<forall>e\<in>set envs. select_ok e \<and> ledger_insert_ok e)"
  then show "balance (usage_ledger (approvals envs u st)) =
              balance (usage_ledger st) - int (length envs)"
    using approvals_balance [OF assms] by blast
qed

text \<open>
  One approval, and three in a row, at a store that accepts every call.
\<close>

lemma approveExport_debit_three_approvals:
  "ui_user reviewing = Some alice \<and> preview reviewing = Some sample_payload \<and>
   select_ok all_accepted \<and> ledger_insert_ok all_accepted \<and>
   latest (plans two_plans) = Some bob_plan \<and>
   usage_ledger (snd (approveExport all_accepted reviewing two_plans)) =
     [\<lparr>l_user_id = ''u1'', l_plan_id = ''p7'', event = ''export_approved'', delta_credits = - 1\<rparr>] \<and>
   plans two_plans \<noteq> [] \<and>
   balance (usage_ledger (approvals [all_accepted, all_accepted, all_accepted] reviewing two_plans))
     = balance (usage_ledger two_plans) - 3"
  using approveExport_debit [of reviewing alice sample_payload all_accepted two_plans bob_plan
      "[all_accepted, all_accepted, all_accepted]"]
    latest_two_plans
  by (simp add: reviewing_def all_accepted_def two_plans_def empty_backend_def alice_def
      bob_plan_def)

text \<open>
  C3 fails on the code. The claim has every call that gets past the plan resolution
  append exactly one ledger entry of \<open>-1\<close>. The result of the ledger insert is not looked
  at, unlike that of the CSV upload that follows it: when the store rejects the insert,
  the call goes on, records the review, exports the CSV and reports
  \<open>Approved & exported CSV.\<close>, and no ledger entry has been appended.
\<close>

theorem approveExport_without_debit:
  "fst (approveExport ledger_rejecting reviewing two_plans) = Alerted ''Approved & exported CSV.'' \<and>
   reviews (snd (approveExport ledger_rejecting reviewing two_plans)) =
     [\<lparr>r_plan_id = ''p7'', r_status = ''approved''\<rparr>] \<and>
   usage_ledger (snd (approveExport ledger_rejecting reviewing two_plans)) = []"
  by (simp add: approveExport_def latest_two_plans log_def Let_def ledger_rejecting_def
      all_accepted_def reviewing_def sample_payload_def alice_def bob_plan_def)
    (simp add: two_plans_def empty_backend_def)

text \<open>
  C4 (as the code has it). \<^verbatim>\<open>approveExport\<close> takes no plan id. With no plan row at all
  it returns after the select without raising or reporting anything, having written
  nothing: no review row, no ledger row. Otherwise the plan it approves is a row of the
  whole plans table whose creation time no other row exceeds, whoever owns it, and the
  review and the ledger entry carry that plan's id.
\<close>

theorem approveExport_latest_plan:
  assumes "ui_user u = Some user" and "preview u = Some pv"
  shows "(plans st = [] \<longrightarrow>
            approveExport env u st = (Returned, st\<lparr>requests := requests st @ [SelectLatestPlan]\<rparr>)) \<and>
         (select_ok env \<and> plans st \<noteq> [] \<longrightarrow>
            (\<exists>q\<in>set (plans st).
               (\<forall>p\<in>set (plans st). created_at p \<le> created_at q) \<and>
               (\<exists>rest. requests (snd (approveExport env u st)) =
                  requests st @
                  [SelectLatestPlan,
                   InsertReview \<lparr>r_plan_id = p_id q, r_status = ''approved''\<rparr>,
                   InsertLedger \<lparr>l_user_id = u_id user, l_plan_id = p_id q,
                                 event = ''export_approved'', delta_credits = - 1\<rparr>] @ rest)))"
proof (intro conjI impI)
  assume "plans st = []"
  with assms show "approveExport env u st =
      (Returned, st\<lparr>requests := requests st @ [SelectLatestPlan]\<rparr>)"
    by (simp add: approveExport_def log_def Let_def)
next
  assume a: "select_ok env \<and> plans st \<noteq> []"
  then obtain q where q: "latest (plans st) = Some q"
    using latest_Nil_iff [of "plans st"] by (cases "latest (plans st)") auto
  from latest_max [OF q] have m: "q \<in> set (plans st)"
    "\<forall>p\<in>set (plans st). created_at p \<le> created_at q" by simp_all
  from a q approveExport_requests [OF assms, of env st q]
  have "\<exists>rest. requests (snd (approveExport env u st)) =
                  requests st @
                  [SelectLatestPlan,
                   InsertReview \<lparr>r_plan_id = p_id q, r_status = ''approved''\<rparr>,
                   InsertLedger \<lparr>l_user_id = u_id user, l_plan_id = p_id q,
                                 event = ''export_approved'', delta_credits = - 1\<rparr>] @ rest"
    by blast
  with m show "\<exists>q\<in>set (plans st).
               (\<forall>p\<in>set (plans st). created_at p \<le> created_at q) \<and>
               (\<exists>rest. requests (snd (approveExport env u st)) =
                  requests st @
                  [SelectLatestPlan,
                   InsertReview \<lparr>r_plan_id = p_id q, r_status = ''approved''\<rparr>,
                   InsertLedger \<lparr>l_user_id = u_id user, l_plan_id = p_id q,
                                 event = ''export_approved'', delta_credits = - 1\<rparr>] @ rest)"
    by blast
qed

text \<open>
  The statement at an empty plans table, and at a table with plans of two users.
\<close>

theorem approveExport_latest_plan_witness:
  "ui_user reviewing = Some alice \<and> preview reviewing = Some sample_payload \<and>
   plans empty_backend = [] \<and>
   approveExport all_accepted reviewing empty_backend =
     (Returned, empty_backend\<lparr>requests := [SelectLatestPlan]\<rparr>) \<and>
   reviews (snd (approveExport all_accepted reviewing empty_backend)) = [] \<and>
   usage_ledger (snd (approveExport all_accepted reviewing empty_backend)) = [] \<and>
   select_ok all_accepted \<and> plans two_plans \<noteq> [] \<and>
   (\<exists>q\<in>set (plans two_plans).
      (\<forall>p\<in>set (plans two_plans). created_at p \<le> created_at q) \<and>
      (\<exists>rest. requests (snd (approveExport all_accepted reviewing two_plans)) =
         requests two_plans @
         [SelectLatestPlan,
          InsertReview \<lparr>r_plan_id = p_id q, r_status = ''approved''\<rparr>,
          InsertLedger \<lparr>l_user_id = u_id alice, l_plan_id = p_id q,
                        event = ''export_approved'', delta_credits = - 1\<rparr>] @ rest))"
proof -
  have h: "ui_user reviewing = Some alice" "preview reviewing = Some sample_payload"
    by (simp_all add: reviewing_def)
  have e: "plans empty_backend = []" "requests empty_backend = []"
    "reviews empty_backend = []" "usage_ledger empty_backend = []"
    by (simp_all add: empty_backend_def)
  have t: "select_ok all_accepted" "plans two_plans \<noteq> []"
    by (simp_all add: all_accepted_def two_plans_def)
  note w1 = approveExport_latest_plan [OF h, of empty_backend all_accepted]
  note w2 = approveExport_latest_plan [OF h, of two_plans all_accepted]
  from w1 e have r: "approveExport all_accepted reviewing empty_backend =
     (Returned, empty_backend\<lparr>requests := [SelectLatestPlan]\<rparr>)" by simp
  from w2 t have "\<exists>q\<in>set (plans two_plans).
      (\<forall>p\<in>set (plans two_plans). created_at p \<le> created_at q) \<and>
      (\<exists>rest. requests (snd (approveExport all_accepted reviewing two_plans)) =
         requests two_plans @
         [SelectLatestPlan,
          InsertReview \<lparr>r_plan_id = p_id q, r_status = ''approved''\<rparr>,
          InsertLedger \<lparr>l_user_id = u_id alice, l_plan_id = p_id q,
                        event = ''export_approved'', delta_credits = - 1\<rparr>] @ rest)"
    by blast
  with h e t r show ?thesis by simp
qed

text \<open>
  C4 as stated does not hold: with no plan the call does not fail with a not-found error.
  It returns as the guard does when there is no preview, and as a call does whose CSV
  upload was refused: a plain return, with no alert and no exception.
\<close>

theorem approveExport_no_plan_returns_silently:
  "approveExport all_accepted reviewing empty_backend =
     (Returned, empty_backend\<lparr>requests := [SelectLatestPlan]\<rparr>) \<and>
   fst (approveExport all_accepted no_preview empty_backend) = Returned \<and>
   fst (approveExport storage_down reviewing two_plans) = Returned"
  by code_simp

text \<open>
  The plan approved need not belong to the user who approves.
\<close>

lemma approveExport_other_users_plan:
  "reviews (snd (approveExport all_accepted reviewing two_plans)) =
     [\<lparr>r_plan_id = p_id bob_plan, r_status = ''approved''\<rparr>] \<and>
   p_user_id bob_plan \<noteq> u_id alice"
  by (simp add: approveExport_def latest_two_plans log_def Let_def
      all_accepted_def reviewing_def sample_payload_def alice_def bob_plan_def)
    (simp add: two_plans_def empty_backend_def)

lemma ascii_append [simp]: "ascii (xs @ ys) \<longleftrightarrow> ascii xs \<and> ascii ys"
  by (auto simp: ascii_def)

lemma ascii_Cons [simp]: "ascii (c # cs) \<longleftrightarrow> (of_char c :: nat) < 128 \<and> ascii cs"
  by (simp add: ascii_def)

lemma ascii_Nil [simp]: "ascii []"
  by (simp add: ascii_def)

lemma digit_char_ascii: "(of_char (digit_char d) :: nat) < 128"
proof -
  have "48 + d mod 10 < 256" by arith
  then have "(of_char (digit_char d) :: nat) = 48 + d mod 10"
    by (simp add: digit_char_def)
  then show ?thesis by arith
qed

lemma show_nat_ascii: "ascii (show_nat n)"
proof (induction n rule: show_nat.induct)
  case (1 n)
  then show ?case
    by (subst show_nat.simps) (simp add: digit_char_ascii)
qed

lemma ascii_digits: "ascii (map digit_char s)"
  by (simp add: ascii_def digit_char_ascii)

lemma ascii_take: "ascii xs \<Longrightarrow> ascii (take n xs)"
  by (auto simp: ascii_def dest: in_set_takeD)

lemma ascii_drop: "ascii xs \<Longrightarrow> ascii (drop n xs)"
  by (auto simp: ascii_def dest: in_set_dropD)

lemma ascii_zeros: "ascii (replicate n CHR ''0'')"
  by (simp add: ascii_def)

lemma positive_to_string_ascii: "ascii (positive_to_string s n)"
  by (simp add: positive_to_string_def Let_def ascii_digits ascii_take ascii_drop ascii_zeros
      show_nat_ascii)

lemma num_to_string_ascii: "ascii (num_to_string x)"
  by (cases x) (simp_all add: positive_to_string_ascii)


text \<open>
  The conversion at numbers of each printed form: the exponent form from \<open>1e21\<close> up and
  below \<open>1e-6\<close>, plain decimals between, and negative zero.
\<close>

lemma num_to_string_forms:
  "num_to_string (JFinite False [1] 22) = ''1e+21''"
  "num_to_string (JFinite False [1] (- 6)) = ''1e-7''"
  "num_to_string (JFinite False [1] (- 5)) = ''0.000001''"
  "num_to_string (JFinite True [1, 2, 5] 23) = ''-1.25e+22''"
  "num_to_string (JFinite False [1, 2] 21) = ''120000000000000000000''"
  "num_to_string (JFinite False [9] 0) = ''0.9''"
  "num_to_string (JZero True) = ''0''"
  by code_simp+

lemma build_csv_ascii: "ascii (build_csv m)"
  by (simp add: build_csv_def num_to_string_ascii)

lemma utf8_encode_ascii: "ascii s \<Longrightarrow> utf8_encode s = map of_char s"
proof (induction s)
  case Nil
  show ?case by (simp add: utf8_encode_def)
next
  case (Cons c cs)
  then have "utf8_unit c = [of_char c]"
    by (simp add: utf8_unit_def Let_def of_nat_of_char)
  with Cons show ?case by (simp add: utf8_encode_def)
qed

lemma approveExport_unfold:
  assumes "ui_user u = Some user" and "preview u = Some pv" and "p_metrics pv = Some m"
    and "select_ok env" and "latest (plans st) = Some q"
  shows "approveExport env u st =
     (let review = \<lparr>r_plan_id = p_id q, r_status = ''approved''\<rparr>;
          entry = \<lparr>l_user_id = u_id user, l_plan_id = p_id q,
                   event = ''export_approved'', delta_credits = - 1\<rparr>;
          csvPath = ''user-'' @ u_id user @ ''/'' @ p_id q @ ''/page-1.csv'';
          csvBlob = \<lparr>blob_bytes = map of_char (build_csv m), blob_type = ''text/csv''\<rparr>;
          st1 = st\<lparr>reviews := reviews st @ (if reviews_insert_ok env then [review] else []),
                    usage_ledger := usage_ledger st @ (if ledger_insert_ok env then [entry] else []),
                    requests := requests st @
                      [SelectLatestPlan, InsertReview review, InsertLedger entry,
                       UploadTo ''outputs'' csvPath csvBlob]\<rparr>
      in if csv_upload_ok env
         then (Alerted ''Approved & exported CSV.'',
               st1\<lparr>outputs_bucket := upload csvPath csvBlob (outputs_bucket st),
                    requests := requests st1 @ [UpdateOutputsCsv (p_id q) csvPath],
                    outputs := (if outputs_update_ok env
                                then map (\<lambda>r. if o_plan_id r = p_id q
                                              then r\<lparr>csv_path := Some csvPath\<rparr> else r) (outputs st)
                                else outputs st)\<rparr>)
         else (Returned, st1))"
  using assms
  by (simp add: approveExport_def log_def Let_def new_Blob_def utf8_encode_ascii build_csv_ascii)

text \<open>
  C5. When the CSV upload fails, \<^verbatim>\<open>approveExport\<close> returns without updating any
  outputs row and without issuing the update; the outputs bucket is unchanged. The review
  row and the ledger entry written earlier in the call stay: the reviews and the ledger
  are exactly what the two inserts left, with the new review and the debit of one credit
  when the store accepted them.
\<close>

theorem csv_upload_failure_no_rollback:
  assumes "ui_user u = Some user" and "preview u = Some pv" and "p_metrics pv = Some m"
    and "select_ok env" and "latest (plans st) = Some q" and "\<not> csv_upload_ok env"
  shows "fst (approveExport env u st) = Returned \<and>
         reviews (snd (approveExport env u st)) =
           reviews st @
           (if reviews_insert_ok env then [\<lparr>r_plan_id = p_id q, r_status = ''approved''\<rparr>] else []) \<and>
         usage_ledger (snd (approveExport env u st)) =
           usage_ledger st @
           (if ledger_insert_ok env
            then [\<lparr>l_user_id = u_id user, l_plan_id = p_id q,
                   event = ''export_approved'', delta_credits = - 1\<rparr>]
            else []) \<and>
         outputs (snd (approveExport env u st)) = outputs st \<and>
         outputs_bucket (snd (approveExport env u st)) = outputs_bucket st \<and>
         (\<forall>p c. UpdateOutputsCsv p c \<notin> set (drop (length (requests st))
                    (requests (snd (approveExport env u st)))))"
  unfolding approveExport_unfold [OF assms(1-5)] using assms(6)
  by (simp add: Let_def)

text \<open>
  The statement at a store that accepts the inserts and rejects the upload.
\<close>

theorem csv_upload_failure_no_rollback_witness:
  "ui_user reviewing = Some alice \<and> preview reviewing = Some sample_payload \<and>
   p_metrics sample_payload = Some sample_metrics \<and> select_ok storage_down \<and>
   latest (plans two_plans) = Some bob_plan \<and> \<not> csv_upload_ok storage_down \<and>
   fst (approveExport storage_down reviewing two_plans) = Returned \<and>
   reviews (snd (approveExport storage_down reviewing two_plans)) =
     [\<lparr>r_plan_id = ''p7'', r_status = ''approved''\<rparr>] \<and>
   usage_ledger (snd (approveExport storage_down reviewing two_plans)) =
     [\<lparr>l_user_id = ''u1'', l_plan_id = ''p7'', event = ''export_approved'', delta_credits = - 1\<rparr>] \<and>
   outputs (snd (approveExport storage_down reviewing two_plans)) = [] \<and>
   outputs_bucket (snd (approveExport storage_down reviewing two_plans)) = []"
  using csv_upload_failure_no_rollback
      [of reviewing alice sample_payload sample_metrics storage_down two_plans bob_plan]
    latest_two_plans
  by (simp add: reviewing_def sample_payload_def storage_down_def all_accepted_def
      two_plans_def empty_backend_def alice_def bob_plan_def)

text \<open>
  C7. For all metrics, the blob \<^verbatim>\<open>approveExport\<close> uploads to the outputs bucket has
  exactly the bytes of \<open>metric,value\<close>, \<open>walls_len_ft,\<close> followed by the value and
  \<open>line_count,\<close> followed by the value, each line ended by a newline, the value being the
  text the template literal gives the number (plain or in exponent form), and it is
  uploaded under \<open>user-{userId}/{planId}/page-1.csv\<close>, where the plan is the one resolved;
  when the store accepts the upload the bucket holds the blob at that path.
\<close>

theorem approveExport_csv_artifact:
  assumes "ui_user u = Some user" and "preview u = Some pv" and "p_metrics pv = Some m"
    and "select_ok env" and "latest (plans st) = Some q"
  shows "UploadTo ''outputs'' (''user-'' @ u_id user @ ''/'' @ p_id q @ ''/page-1.csv'')
           \<lparr>blob_bytes = map of_char
              (''metric,value'' @ [CHR 0x0A] @
               ''walls_len_ft,'' @ num_to_string (walls_len_ft m) @ [CHR 0x0A] @
               ''line_count,'' @ num_to_string (line_count m) @ [CHR 0x0A]),
            blob_type = ''text/csv''\<rparr>
           \<in> set (requests (snd (approveExport env u st))) \<and>
         (csv_upload_ok env \<longrightarrow>
            map_of (outputs_bucket (snd (approveExport env u st)))
              (''user-'' @ u_id user @ ''/'' @ p_id q @ ''/page-1.csv'') =
            Some \<lparr>blob_bytes = map of_char
              (''metric,value'' @ [CHR 0x0A] @
               ''walls_len_ft,'' @ num_to_string (walls_len_ft m) @ [CHR 0x0A] @
               ''line_count,'' @ num_to_string (line_count m) @ [CHR 0x0A]),
            blob_type = ''text/csv''\<rparr>)"
  unfolding approveExport_unfold [OF assms]
  by (simp add: Let_def build_csv_def map_of_upload)

lemma sample_numbers:
  "num_to_string (walls_len_ft sample_metrics) = ''120.5''"
  "num_to_string (line_count sample_metrics) = ''34''"
  "num_to_string (walls_len_ft extreme_metrics) = ''1e+21''"
  "num_to_string (line_count extreme_metrics) = ''1e-7''"
  by code_simp+

text \<open>
  The statement at the metrics \<open>walls_len_ft = 120.5\<close> and \<open>line_count = 34\<close>, and at the
  metrics \<open>1e21\<close> and \<open>1e-7\<close>, which print in exponent form.
\<close>

theorem approveExport_csv_artifact_witness:
  "ui_user reviewing = Some alice \<and> preview reviewing = Some sample_payload \<and>
   p_metrics sample_payload = Some sample_metrics \<and> select_ok all_accepted \<and>
   latest (plans two_plans) = Some bob_plan \<and> csv_upload_ok all_accepted \<and>
   map_of (outputs_bucket (snd (approveExport all_accepted reviewing two_plans)))
     ''user-u1/p7/page-1.csv'' =
   Some \<lparr>blob_bytes = map of_char
           (''metric,value'' @ [CHR 0x0A] @ ''walls_len_ft,120.5'' @ [CHR 0x0A] @
            ''line_count,34'' @ [CHR 0x0A]),
         blob_type = ''text/csv''\<rparr> \<and>
   ui_user reviewing_extreme = Some alice \<and> preview reviewing_extreme = Some extreme_payload \<and>
   p_metrics extreme_payload = Some extreme_metrics \<and>
   map_of (outputs_bucket (snd (approveExport all_accepted reviewing_extreme two_plans)))
     ''user-u1/p7/page-1.csv'' =
   Some \<lparr>blob_bytes = map of_char
           (''metric,value'' @ [CHR 0x0A] @ ''walls_len_ft,1e+21'' @ [CHR 0x0A] @
            ''line_count,1e-7'' @ [CHR 0x0A]),
         blob_type = ''text/csv''\<rparr>"
  using approveExport_csv_artifact
      [of reviewing alice sample_payload sample_metrics all_accepted two_plans bob_plan]
    approveExport_csv_artifact
      [of reviewing_extreme alice extreme_payload extreme_metrics all_accepted two_plans bob_plan]
    latest_two_plans
  by (simp add: reviewing_def reviewing_extreme_def sample_payload_def extreme_payload_def
      all_accepted_def alice_def bob_plan_def sample_numbers)

end
